theory Spec2Isabelle
  imports Main
begin

section \<open>Data model (types.ts)\<close>

text \<open>
  \<^verbatim>\<open>export enum Exercise { Pushups, Squats, JumpingJacks }\<close> and
  \<^verbatim>\<open>export type RepState = 'UP' | 'DOWN' | 'NEUTRAL'\<close>.
  The enum's values are non-empty strings, so a selected exercise is always truthy and
  \<^verbatim>\<open>Exercise | null\<close> is \<open>Exercise option\<close>.
\<close>

datatype Exercise = Pushups | Squats | JumpingJacks

datatype RepState = UP | DOWN | NEUTRAL

section \<open>The classifier adapter (services/geminiService.ts)\<close>

subsection \<open>JavaScript strings\<close>

text \<open>
  The response text is an arbitrary JavaScript string. It is modelled as the list of its
  code points (a lone surrogate counts as a code point of its own), which determines the
  string. \<open>str\<close> embeds an ASCII literal.
\<close>

type_synonym jsstring = "nat list"

definition str :: "string \<Rightarrow> jsstring" where
  "str s = map of_char s"

text \<open>
  \<^verbatim>\<open>String.prototype.trim\<close> removes the WhiteSpace and LineTerminator code points of
  ECMAScript from both ends: TAB, LF, VT, FF, CR, SPACE, NBSP, U+1680, U+2000..U+200A,
  U+2028, U+2029, U+202F, U+205F, U+3000 and U+FEFF.
\<close>

definition isWhiteSpace :: "nat \<Rightarrow> bool" where
  "isWhiteSpace c \<longleftrightarrow>
     c \<in> set [9, 10, 11, 12, 13, 32, 160, 5760, 8232, 8233, 8239, 8287, 12288, 65279]
     \<or> (8192 \<le> c \<and> c \<le> 8202)"

definition trim :: "jsstring \<Rightarrow> jsstring" where
  "trim s = rev (dropWhile isWhiteSpace (rev (dropWhile isWhiteSpace s)))"

text \<open>
  \<^verbatim>\<open>String.prototype.toUpperCase\<close> maps every code point on its own to a sequence of
  code points. On ASCII this is \<open>a..z \<mapsto> A..Z\<close> and the identity elsewhere; beyond ASCII
  it is the Unicode case-mapping table, which is not part of the repository and is taken as
  the parameter \<open>U\<close> (for instance \<open>U 223 = str ''SS''\<close>).
\<close>

definition upperCodePoint :: "(nat \<Rightarrow> jsstring) \<Rightarrow> nat \<Rightarrow> jsstring" where
  "upperCodePoint U c =
     (if 97 \<le> c \<and> c \<le> 122 then [c - 32] else if c < 128 then [c] else U c)"

definition toUpperCase :: "(nat \<Rightarrow> jsstring) \<Rightarrow> jsstring \<Rightarrow> jsstring" where
  "toUpperCase U s = concat (map (upperCodePoint U) s)"

subsection \<open>analyzeFrame of the service\<close>

text \<open>
  What \<^verbatim>\<open>await ai.models.generateContent(...)\<close> can do: reject (network, quota, ...), or
  resolve to a response whose \<^verbatim>\<open>text\<close> getter gives a string or \<^verbatim>\<open>undefined\<close>.
\<close>

datatype genResult = Rejected | Response "jsstring option"

datatype error = ApiError | TypeError

text \<open>
  The body of the \<^verbatim>\<open>try\<close> block. \<^verbatim>\<open>response.text.trim()\<close> throws a TypeError when
  the text is \<^verbatim>\<open>undefined\<close>; a rejected request throws at the \<^verbatim>\<open>await\<close>.
\<close>

definition analyzeFrame_try :: "(nat \<Rightarrow> jsstring) \<Rightarrow> genResult \<Rightarrow> error + RepState" where
  "analyzeFrame_try U r =
     (case r of
        Rejected \<Rightarrow> Inl ApiError
      | Response None \<Rightarrow> Inl TypeError
      | Response (Some t) \<Rightarrow>
          (let text = toUpperCase U (trim t) in
           if text = str ''UP'' then Inr UP
           else if text = str ''DOWN'' then Inr DOWN
           else if text = str ''NEUTRAL'' then Inr NEUTRAL
           else Inr NEUTRAL))"

text \<open>
  \<^verbatim>\<open>analyzeFrame(base64Image, exercise)\<close>: the \<^verbatim>\<open>try\<close> block with its
  \<^verbatim>\<open>catch\<close>, which returns \<^verbatim>\<open>'NEUTRAL'\<close>. The request is built from the image and
  from the prompt, which \<^verbatim>\<open>getPromptForExercise\<close> computes from the exercise alone; the
  remote model is the parameter \<open>gen\<close>. The result is the settled promise: \<open>Inl\<close> a
  rejection, \<open>Inr\<close> the value it resolves to.
\<close>

definition analyzeFrame_service ::
  "(nat \<Rightarrow> jsstring) \<Rightarrow> (string \<Rightarrow> Exercise \<Rightarrow> genResult) \<Rightarrow> string \<Rightarrow> Exercise \<Rightarrow> error + RepState" where
  "analyzeFrame_service U gen base64Image exercise =
     (case analyzeFrame_try U (gen base64Image exercise) of
        Inl e \<Rightarrow> Inr NEUTRAL
      | Inr position \<Rightarrow> Inr position)"

section \<open>The rep counter (App component)\<close>

text \<open>
  The feedback messages are fixed strings (most of them Persian); each is a constructor.
  \<open>ShowPosition p\<close> is \<^verbatim>\<open>setFeedbackMessage(position)\<close>.
\<close>

datatype feedback =
    ChooseExercise
  | Analyzing
  | ShowPosition RepState
  | Great
  | SelectFirst
  | Ready
  | Stopped
  | CounterZeroed
  | Selected Exercise

text \<open>
  The window's active timers, by handle: the sampling interval, whose callback is the
  \<^verbatim>\<open>analyzeFrame\<close> closure of the render that started it (it holds that render's
  selected exercise), and the 500 ms cooldown timeout.
\<close>

datatype timer = Interval Exercise | Cooldown

text \<open>
  The component's state and refs, the timer table, the next fresh timer handle (handles
  are positive) and the number of classifications awaited. \<open>repCount\<close> is a JavaScript
  number that starts at 0 and only ever takes the steps \<open>+ 1\<close> and \<open>:= 0\<close>; on such
  values (far below \<open>2 ^ 53\<close>) it is exact, and it is modelled as \<open>nat\<close>.
\<close>

record state =
  selectedExercise :: "Exercise option"
  repCount :: nat
  isCounting :: bool
  feedbackMessage :: feedback
  lastPosition :: RepState
  repStateCooldown :: bool
  analysisIntervalRef :: "nat option"
  timers :: "(nat \<times> timer) list"
  nextTimerId :: nat
  inFlight :: nat

definition initial :: state where
  "initial = \<lparr> selectedExercise = None, repCount = 0, isCounting = False,
     feedbackMessage = ChooseExercise, lastPosition = NEUTRAL, repStateCooldown = False,
     analysisIntervalRef = None, timers = [], nextTimerId = 1, inFlight = 0 \<rparr>"

text \<open>\<^verbatim>\<open>clearInterval(i)\<close> and the registration of a timer under a fresh handle.\<close>

definition clearInterval :: "nat \<Rightarrow> state \<Rightarrow> state" where
  "clearInterval i s = s\<lparr>timers := filter (\<lambda>(j, t). j \<noteq> i) (timers s)\<rparr>"

definition addTimer :: "timer \<Rightarrow> state \<Rightarrow> state" where
  "addTimer t s =
     s\<lparr>timers := timers s @ [(nextTimerId s, t)], nextTimerId := nextTimerId s + 1\<rparr>"

text \<open>
  \<^verbatim>\<open>analyzeFrame\<close> up to its \<^verbatim>\<open>await\<close>. \<open>sel\<close> is the selected exercise the closure
  holds. \<open>frame\<close> is what the capture gives: \<open>None\<close> when the video or canvas element or
  the 2d context is missing, otherwise the base64 payload of \<^verbatim>\<open>toDataURL\<close>, which is
  falsy when empty. When a request is sent, the feedback shows it and one more
  classification is awaited.
\<close>

definition analyzeFrame_request :: "Exercise option \<Rightarrow> string option \<Rightarrow> state \<Rightarrow> state" where
  "analyzeFrame_request sel frame s =
     (case sel of
        None \<Rightarrow> s
      | Some ex \<Rightarrow>
          (case frame of
             None \<Rightarrow> s
           | Some base64Image \<Rightarrow>
               if base64Image = [] then s
               else s\<lparr>feedbackMessage := Analyzing, inFlight := inFlight s + 1\<rparr>))"

text \<open>
  \<^verbatim>\<open>analyzeFrame\<close> from the point where the classification has resolved to
  \<open>position\<close>: the feedback, the cooldown gate, the rep edge, the position.
\<close>

definition analyzeFrame_resume :: "RepState \<Rightarrow> state \<Rightarrow> state" where
  "analyzeFrame_resume position s =
     (let s1 = s\<lparr>feedbackMessage := ShowPosition position\<rparr> in
      if repStateCooldown s1 then s1
      else
        (let s2 =
           (if lastPosition s1 = DOWN \<and> position = UP
            then addTimer Cooldown
                   (s1\<lparr>repCount := repCount s1 + 1, feedbackMessage := Great,
                       repStateCooldown := True\<rparr>)
            else s1)
         in s2\<lparr>lastPosition := position\<rparr>))"

definition startCounting :: "state \<Rightarrow> state" where
  "startCounting s =
     (case selectedExercise s of
        None \<Rightarrow> s\<lparr>feedbackMessage := SelectFirst\<rparr>
      | Some ex \<Rightarrow>
          (let s1 = s\<lparr>isCounting := True, feedbackMessage := Ready\<rparr> in
           (addTimer (Interval ex) s1)\<lparr>analysisIntervalRef := Some (nextTimerId s1)\<rparr>))"

definition stopCounting :: "state \<Rightarrow> state" where
  "stopCounting s =
     (let s1 = s\<lparr>isCounting := False\<rparr>;
          s2 = (case analysisIntervalRef s1 of
                  None \<Rightarrow> s1
                | Some i \<Rightarrow> if i \<noteq> 0 then clearInterval i s1 else s1)
      in s2\<lparr>feedbackMessage := Stopped\<rparr>)"

definition resetCounter :: "state \<Rightarrow> state" where
  "resetCounter s =
     (let s1 = stopCounting s;
          s2 = s1\<lparr>repCount := 0\<rparr>;
          s3 = s2\<lparr>lastPosition := NEUTRAL\<rparr>
      in s3\<lparr>feedbackMessage :=
              (if selectedExercise s \<noteq> None then CounterZeroed else ChooseExercise)\<rparr>)"

definition handleSelectExercise :: "Exercise \<Rightarrow> state \<Rightarrow> state" where
  "handleSelectExercise exercise s =
     (let s1 = resetCounter s;
          s2 = s1\<lparr>selectedExercise := Some exercise\<rparr>
      in s2\<lparr>feedbackMessage := Selected exercise\<rparr>)"

subsection \<open>The event loop\<close>

text \<open>
  Everything runs on one thread, one event at a time: the four user operations, a sampling
  interval firing (with what the capture gives), an awaited classification resolving to a
  label, and a cooldown timeout firing. A timer that is no longer in the table does not
  fire; a timeout leaves the table when it fires.
\<close>

datatype event =
    Start
  | Stop
  | Reset
  | Select Exercise
  | IntervalFires nat "string option"
  | Resolves RepState
  | TimeoutFires nat

fun step :: "event \<Rightarrow> state \<Rightarrow> state" where
  "step Start s = startCounting s"
| "step Stop s = stopCounting s"
| "step Reset s = resetCounter s"
| "step (Select k) s = handleSelectExercise k s"
| "step (IntervalFires i frame) s =
     (case map_of (timers s) i of
        Some (Interval ex) \<Rightarrow> analyzeFrame_request (Some ex) frame s
      | _ \<Rightarrow> s)"
| "step (Resolves position) s =
     (if inFlight s = 0 then s
      else analyzeFrame_resume position (s\<lparr>inFlight := inFlight s - 1\<rparr>))"
| "step (TimeoutFires i) s =
     (case map_of (timers s) i of
        Some Cooldown \<Rightarrow> (clearInterval i s)\<lparr>repStateCooldown := False\<rparr>
      | _ \<Rightarrow> s)"

definition run :: "event list \<Rightarrow> state \<Rightarrow> state" where
  "run es s = fold step es s"

fun resets :: "event \<Rightarrow> bool" where
  "resets Reset = True"
| "resets (Select k) = True"
| "resets e = False"

subsection \<open>Two sample runs\<close>

text \<open>
  A non-empty base64 payload, and two runs from the initial state, both with squats
  selected and counting started (the interval gets handle 1).
  \<open>midflight\<close>: the first sample was classified DOWN and the second sample has been sent
  and is still awaited.
  \<open>counted\<close>: the second sample has come back UP, so a rep has just been counted and the
  cooldown is on.
\<close>

definition frame0 :: "string option" where
  "frame0 = Some ''/9j/4AAQ''"

definition midflight :: state where
  "midflight = run [Select Squats, Start, IntervalFires 1 frame0, Resolves DOWN,
                    IntervalFires 1 frame0] initial"

definition counted :: state where
  "counted = run [Select Squats, Start, IntervalFires 1 frame0, Resolves DOWN,
                  IntervalFires 1 frame0, Resolves UP] initial"

section \<open>Properties\<close>

subsection \<open>Auxiliary facts\<close>

lemmas ops = startCounting_def stopCounting_def resetCounter_def handleSelectExercise_def
  analyzeFrame_request_def analyzeFrame_resume_def addTimer_def clearInterval_def

lemma str_simps: "str [] = []" "str (c # cs) = of_char c # str cs"
  by (simp_all add: str_def)

lemma map_of_filter_out: "map_of (filter (\<lambda>(j, t). j \<noteq> i) xs) i = None"
  by (induction xs) auto

lemma midflight_eq:
  "midflight = \<lparr> selectedExercise = Some Squats, repCount = 0, isCounting = True,
     feedbackMessage = Analyzing, lastPosition = DOWN, repStateCooldown = False,
     analysisIntervalRef = Some 1, timers = [(1, Interval Squats)],
     nextTimerId = 2, inFlight = 1 \<rparr>"
  by (simp add: midflight_def run_def frame0_def initial_def ops Let_def)

lemma counted_eq:
  "counted = \<lparr> selectedExercise = Some Squats, repCount = 1, isCounting = True,
     feedbackMessage = Great, lastPosition = UP, repStateCooldown = True,
     analysisIntervalRef = Some 1, timers = [(1, Interval Squats), (2, Cooldown)],
     nextTimerId = 3, inFlight = 0 \<rparr>"
  by (simp add: counted_def run_def frame0_def initial_def ops Let_def)

text \<open>Whitespace around a text never matters to \<open>trim\<close>.\<close>

lemma trim_padding:
  assumes l: "\<forall>c\<in>set l. isWhiteSpace c" and r: "\<forall>c\<in>set r. isWhiteSpace c"
  shows "trim (l @ t @ r) = trim t"
proof -
  have 1: "dropWhile isWhiteSpace (l @ t @ r) = dropWhile isWhiteSpace (t @ r)"
    using l by (simp add: dropWhile_append2)
  show ?thesis
  proof (cases "\<forall>c\<in>set t. isWhiteSpace c")
    case True
    have a: "dropWhile isWhiteSpace (t @ r) = []"
      using True r by (simp add: ball_Un)
    have b: "dropWhile isWhiteSpace t = []"
      using True by simp
    show ?thesis unfolding trim_def 1 a b by simp
  next
    case False
    then obtain c where c: "c \<in> set t" "\<not> isWhiteSpace c" by blast
    then have "dropWhile isWhiteSpace (t @ r) = dropWhile isWhiteSpace t @ r"
      by (rule dropWhile_append1)
    moreover have "dropWhile isWhiteSpace (rev r @ rev (dropWhile isWhiteSpace t))
        = dropWhile isWhiteSpace (rev (dropWhile isWhiteSpace t))"
      using r by (simp add: dropWhile_append)
    ultimately show ?thesis using 1 by (simp add: trim_def)
  qed
qed

text \<open>One event that is neither a reset nor a selection adds 0 or 1 to the count.\<close>

lemma step_repCount:
  "\<not> resets e \<Longrightarrow> repCount (step e s) = repCount s \<or> repCount (step e s) = repCount s + 1"
  by (cases e) (auto simp: ops Let_def split: option.splits timer.splits)

lemma run_snoc: "run (es @ [e]) s = step e (run es s)"
  by (simp add: run_def)

lemma run_mono: "\<forall>e\<in>set es. \<not> resets e \<Longrightarrow> repCount s \<le> repCount (run es s)"
proof (induction es rule: rev_induct)
  case Nil
  then show ?case by (simp add: run_def)
next
  case (snoc e es)
  then have "repCount s \<le> repCount (run es s)" by simp
  moreover have "\<not> resets e" using snoc.prems by simp
  from step_repCount [OF this, of "run es s"]
  have "repCount (run es s) \<le> repCount (step e (run es s))" by auto
  ultimately show ?case by (simp add: run_snoc)
qed

subsection \<open>The transition rule\<close>

text \<open>
  C1. A tick is the run of the transition rule on a classification that has resolved; the
  state entering the tick is the state at that moment. The tick adds exactly 1 to
  \<open>repCount\<close> if and only if \<open>lastPosition\<close> entering it was DOWN, its label is UP and the
  cooldown flag was off entering it; otherwise it leaves \<open>repCount\<close> as it was.
\<close>

theorem rep_edge_rule:
  "(repCount (analyzeFrame_resume position s) = repCount s + 1 \<longleftrightarrow>
      lastPosition s = DOWN \<and> position = UP \<and> \<not> repStateCooldown s) \<and>
   (\<not> (lastPosition s = DOWN \<and> position = UP \<and> \<not> repStateCooldown s) \<longrightarrow>
      repCount (analyzeFrame_resume position s) = repCount s)"
  by (simp add: analyzeFrame_resume_def addTimer_def Let_def)

theorem rep_edge_rule_witness:
  "repCount (analyzeFrame_resume UP midflight) = 1 \<and>
   repCount (analyzeFrame_resume NEUTRAL midflight) = 0 \<and>
   repCount (analyzeFrame_resume UP counted) = 1"
  using rep_edge_rule [of UP midflight] rep_edge_rule [of NEUTRAL midflight]
    rep_edge_rule [of UP counted]
  by (simp add: midflight_eq counted_eq)

text \<open>
  C2, as claimed: with the cooldown on, a classified tick still moves \<open>lastPosition\<close> to
  its label. It does not: in \<open>counted\<close> the cooldown is on and \<open>lastPosition\<close> is UP; the
  next sample comes back DOWN and \<open>lastPosition\<close> is still UP. (The cooldown starts when a
  classification resolves, so a slow answer followed by a fast one puts two ticks inside
  one cooldown.)
\<close>

theorem cooldown_tick_counterexample:
  "repStateCooldown counted \<and> lastPosition counted = UP \<and>
   lastPosition (run [IntervalFires 1 frame0, Resolves DOWN] counted) \<noteq> DOWN"
  by (simp add: counted_eq run_def frame0_def ops Let_def)

text \<open>
  C2, amended: the cooldown gate comes before the position update. With the cooldown on,
  a tick changes neither \<open>lastPosition\<close> nor \<open>repCount\<close>; with the cooldown off, it sets
  \<open>lastPosition\<close> to its label.
\<close>

theorem cooldown_gates_position:
  "(repStateCooldown s \<longrightarrow>
      lastPosition (analyzeFrame_resume position s) = lastPosition s \<and>
      repCount (analyzeFrame_resume position s) = repCount s) \<and>
   (\<not> repStateCooldown s \<longrightarrow>
      lastPosition (analyzeFrame_resume position s) = position)"
  by (simp add: analyzeFrame_resume_def addTimer_def Let_def)

theorem cooldown_gates_position_witness:
  "repStateCooldown counted \<and>
   lastPosition (analyzeFrame_resume DOWN counted) = UP \<and>
   repCount (analyzeFrame_resume DOWN counted) = 1 \<and>
   \<not> repStateCooldown midflight \<and>
   lastPosition (analyzeFrame_resume NEUTRAL midflight) = NEUTRAL"
  using cooldown_gates_position [of counted DOWN]
    cooldown_gates_position [of midflight NEUTRAL]
  by (simp add: midflight_eq counted_eq)

text \<open>
  C7. Along any sequence of events with no reset and no selection (ticks, skipped
  samples, cooldown timeouts, start, stop) \<open>repCount\<close> never goes down, and each event
  leaves it as it was or adds 1.
\<close>

theorem repCount_monotone:
  "\<forall>e\<in>set es. \<not> resets e \<Longrightarrow>
   repCount s \<le> repCount (run es s) \<and>
   (\<forall>n<length es.
      repCount (run (take (Suc n) es) s) = repCount (run (take n es) s) \<or>
      repCount (run (take (Suc n) es) s) = repCount (run (take n es) s) + 1)"
proof
  assume a: "\<forall>e\<in>set es. \<not> resets e"
  show "repCount s \<le> repCount (run es s)"
    by (rule run_mono [OF a])
  show "\<forall>n<length es.
      repCount (run (take (Suc n) es) s) = repCount (run (take n es) s) \<or>
      repCount (run (take (Suc n) es) s) = repCount (run (take n es) s) + 1"
  proof (intro allI impI)
    fix n
    assume n: "n < length es"
    then have "take (Suc n) es = take n es @ [es ! n]"
      by (rule take_Suc_conv_app_nth)
    moreover have "\<not> resets (es ! n)"
      using a n by simp
    ultimately show
      "repCount (run (take (Suc n) es) s) = repCount (run (take n es) s) \<or>
       repCount (run (take (Suc n) es) s) = repCount (run (take n es) s) + 1"
      using step_repCount [of "es ! n" "run (take n es) s"] by (simp add: run_snoc)
  qed
qed

theorem repCount_monotone_witness:
  "\<not> resets (Resolves UP) \<and> \<not> resets (TimeoutFires 2) \<and> \<not> resets Stop \<and>
   repCount midflight \<le>
     repCount (run [Resolves UP, TimeoutFires 2, IntervalFires 1 frame0, Resolves DOWN, Stop]
                 midflight)"
  using repCount_monotone
    [of "[Resolves UP, TimeoutFires 2, IntervalFires 1 frame0, Resolves DOWN, Stop]" midflight]
  by simp

subsection \<open>The user operations\<close>

text \<open>
  C3, as claimed: after \<^verbatim>\<open>reset()\<close> the cooldown flag is off, whatever the state before.
  It is not: \<open>resetCounter\<close> never writes the flag, so a reset right after a counted rep
  leaves it on.
\<close>

theorem reset_cooldown_counterexample:
  "\<not> (repCount (resetCounter counted) = 0 \<and>
      lastPosition (resetCounter counted) = NEUTRAL \<and>
      repStateCooldown (resetCounter counted) = False)"
  by (simp add: counted_eq ops Let_def)

text \<open>
  C3, amended: after \<^verbatim>\<open>reset()\<close>, from any state, \<open>repCount\<close> is 0, \<open>lastPosition\<close> is
  NEUTRAL and counting is off; the cooldown flag is what it was before (only the cooldown
  timeout clears it).
\<close>

theorem resetCounter_effect:
  "repCount (resetCounter s) = 0 \<and>
   lastPosition (resetCounter s) = NEUTRAL \<and>
   \<not> isCounting (resetCounter s) \<and>
   repStateCooldown (resetCounter s) = repStateCooldown s"
  by (simp add: resetCounter_def stopCounting_def clearInterval_def Let_def
      split: option.splits)

text \<open>
  C4, as claimed: \<^verbatim>\<open>selectExercise(kind)\<close> clears the cooldown flag. It does not: the
  user stops right after a counted rep and picks another exercise, and the flag is still
  on.
\<close>

theorem select_cooldown_counterexample:
  "repStateCooldown (run [Stop, Select Pushups] counted) \<noteq> False"
  by (simp add: counted_eq run_def ops Let_def)

text \<open>
  C4, amended: from any state, \<^verbatim>\<open>selectExercise(kind)\<close> turns counting off and clears
  the interval whose handle the component holds, sets \<open>repCount\<close> to 0 and \<open>lastPosition\<close>
  to NEUTRAL, and selects \<open>kind\<close>; the cooldown flag is what it was before.
\<close>

theorem handleSelectExercise_effect:
  "\<not> isCounting (handleSelectExercise kind s) \<and>
   (\<forall>i. analysisIntervalRef s = Some i \<and> i \<noteq> 0 \<longrightarrow>
        map_of (timers (handleSelectExercise kind s)) i = None) \<and>
   repCount (handleSelectExercise kind s) = 0 \<and>
   lastPosition (handleSelectExercise kind s) = NEUTRAL \<and>
   selectedExercise (handleSelectExercise kind s) = Some kind \<and>
   repStateCooldown (handleSelectExercise kind s) = repStateCooldown s"
  by (simp add: handleSelectExercise_def resetCounter_def stopCounting_def clearInterval_def
      Let_def map_of_filter_out split: option.splits)

theorem handleSelectExercise_effect_witness:
  "analysisIntervalRef counted = Some 1 \<and> 0 < repCount counted \<and>
   map_of (timers (handleSelectExercise Pushups counted)) 1 = None \<and>
   repCount (handleSelectExercise Pushups counted) = 0 \<and>
   selectedExercise (handleSelectExercise Pushups counted) = Some Pushups"
proof -
  have h: "analysisIntervalRef counted = Some 1 \<and> (1::nat) \<noteq> 0"
    by (simp add: counted_eq)
  have "0 < repCount counted"
    by (simp add: counted_eq)
  with h handleSelectExercise_effect [of Pushups counted] show ?thesis
    by blast
qed

text \<open>
  C6. With no exercise selected, \<^verbatim>\<open>start()\<close> changes nothing but the feedback message:
  counting stays as it was (off), no timer is registered, \<open>repCount\<close> and \<open>lastPosition\<close>
  are unchanged.
\<close>

theorem startCounting_without_exercise:
  "selectedExercise s = None \<Longrightarrow>
   startCounting s = s\<lparr>feedbackMessage := SelectFirst\<rparr> \<and>
   isCounting (startCounting s) = isCounting s \<and>
   timers (startCounting s) = timers s \<and>
   analysisIntervalRef (startCounting s) = analysisIntervalRef s \<and>
   repCount (startCounting s) = repCount s \<and>
   lastPosition (startCounting s) = lastPosition s"
  by (simp add: startCounting_def)

theorem startCounting_without_exercise_witness:
  "selectedExercise initial = None \<and>
   startCounting initial = initial\<lparr>feedbackMessage := SelectFirst\<rparr> \<and>
   \<not> isCounting (startCounting initial) \<and>
   timers (startCounting initial) = []"
proof -
  have h: "selectedExercise initial = None"
    by (simp add: initial_def)
  have "\<not> isCounting initial" "timers initial = []"
    by (simp_all add: initial_def)
  with h startCounting_without_exercise [OF h] show ?thesis
    by simp
qed

text \<open>
  C9. \<^verbatim>\<open>reset()\<close> leaves the selected exercise as it was, whatever the state.
\<close>

theorem resetCounter_keeps_selection:
  "selectedExercise (resetCounter s) = selectedExercise s"
  by (simp add: resetCounter_def stopCounting_def clearInterval_def Let_def
      split: option.splits)

subsection \<open>Stopping while a classification is awaited\<close>

text \<open>
  C8, as claimed: a classification that resolves after \<^verbatim>\<open>stop()\<close> or \<^verbatim>\<open>reset()\<close>
  changes neither \<open>repCount\<close> nor \<open>lastPosition\<close>. It does: in \<open>midflight\<close> the last
  position is DOWN and a sample is awaited; the user stops, the sample comes back UP, and
  the rep is counted. After a reset in its place the same answer moves \<open>lastPosition\<close>
  from NEUTRAL to UP.
\<close>

theorem stale_result_counterexample:
  "inFlight midflight = 1 \<and>
   repCount (run [Stop] midflight) = 0 \<and>
   lastPosition (run [Stop] midflight) = DOWN \<and>
   repCount (run [Stop, Resolves UP] midflight) = 1 \<and>
   lastPosition (run [Stop, Resolves UP] midflight) = UP \<and>
   lastPosition (run [Reset] midflight) = NEUTRAL \<and>
   lastPosition (run [Reset, Resolves UP] midflight) = UP"
  by (simp add: midflight_eq run_def ops Let_def)

text \<open>
  C8, amended: \<^verbatim>\<open>stop()\<close> and \<^verbatim>\<open>reset()\<close> clear the interval whose handle the component
  holds, so it fires no more; a classification still awaited is not discarded, and when
  it resolves the transition rule runs on it. After \<^verbatim>\<open>stop()\<close> it counts a rep on a
  DOWN to UP edge outside the cooldown and sets \<open>lastPosition\<close> to its label unless the
  cooldown is on. After \<^verbatim>\<open>reset()\<close> it leaves \<open>repCount\<close> at 0 and sets \<open>lastPosition\<close> to
  its label unless the cooldown is on.
\<close>

theorem cancellation_effect:
  "(analysisIntervalRef s = Some i \<and> i \<noteq> 0 \<longrightarrow>
      step (IntervalFires i frame) (stopCounting s) = stopCounting s \<and>
      step (IntervalFires i frame) (resetCounter s) = resetCounter s) \<and>
   (0 < inFlight s \<longrightarrow>
      repCount (step (Resolves position) (stopCounting s)) =
        (if lastPosition s = DOWN \<and> position = UP \<and> \<not> repStateCooldown s
         then repCount s + 1 else repCount s) \<and>
      lastPosition (step (Resolves position) (stopCounting s)) =
        (if repStateCooldown s then lastPosition s else position) \<and>
      repCount (step (Resolves position) (resetCounter s)) = 0 \<and>
      lastPosition (step (Resolves position) (resetCounter s)) =
        (if repStateCooldown s then NEUTRAL else position))"
  by (simp add: ops Let_def map_of_filter_out split: option.splits)

theorem cancellation_effect_witness:
  "analysisIntervalRef midflight = Some 1 \<and> 0 < inFlight midflight \<and>
   step (IntervalFires 1 frame0) (stopCounting midflight) = stopCounting midflight \<and>
   repCount (step (Resolves UP) (stopCounting midflight)) = 1 \<and>
   lastPosition (step (Resolves UP) (stopCounting midflight)) = UP \<and>
   repCount (step (Resolves UP) (resetCounter midflight)) = 0"
proof -
  have h1: "analysisIntervalRef midflight = Some 1 \<and> (1::nat) \<noteq> 0"
    by (simp add: midflight_eq)
  have h2: "0 < inFlight midflight"
    by (simp add: midflight_eq)
  have h3: "lastPosition midflight = DOWN" "\<not> repStateCooldown midflight"
    "repCount midflight = 0"
    by (simp_all add: midflight_eq)
  from cancellation_effect [of midflight 1 frame0 UP] h1 h2 h3 show ?thesis
    by simp
qed

subsection \<open>The classifier adapter\<close>

text \<open>
  C5. Whatever the frame, the exercise and the remote model's behaviour, the adapter's
  \<open>analyzeFrame\<close> never rejects: it resolves to one of UP, DOWN, NEUTRAL. A rejected
  request, a response without text and a text that is none of the three words all give
  NEUTRAL.
\<close>

theorem analyzeFrame_service_total:
  "(\<exists>p. analyzeFrame_service U gen img ex = Inr p \<and> p \<in> {UP, DOWN, NEUTRAL}) \<and>
   (gen img ex = Rejected \<longrightarrow> analyzeFrame_service U gen img ex = Inr NEUTRAL) \<and>
   (gen img ex = Response None \<longrightarrow> analyzeFrame_service U gen img ex = Inr NEUTRAL) \<and>
   (\<forall>t. gen img ex = Response (Some t) \<and>
        toUpperCase U (trim t) \<notin> {str ''UP'', str ''DOWN'', str ''NEUTRAL''} \<longrightarrow>
        analyzeFrame_service U gen img ex = Inr NEUTRAL)"
proof -
  obtain p where p: "analyzeFrame_service U gen img ex = Inr p"
    by (cases "analyzeFrame_try U (gen img ex)") (simp_all add: analyzeFrame_service_def)
  have "p \<in> {UP, DOWN, NEUTRAL}"
    by (cases p) simp_all
  with p have "\<exists>p. analyzeFrame_service U gen img ex = Inr p \<and> p \<in> {UP, DOWN, NEUTRAL}"
    by blast
  then show ?thesis
    by (simp add: analyzeFrame_service_def analyzeFrame_try_def)
qed

theorem analyzeFrame_service_total_witness:
  "analyzeFrame_service (\<lambda>c. [c]) (\<lambda>img ex. Rejected) ''/9j/4AAQ'' Pushups = Inr NEUTRAL \<and>
   analyzeFrame_service (\<lambda>c. [c]) (\<lambda>img ex. Response None) ''/9j/4AAQ'' Pushups
     = Inr NEUTRAL \<and>
   analyzeFrame_service (\<lambda>c. [c]) (\<lambda>img ex. Response (Some (str ''I cannot tell'')))
     ''/9j/4AAQ'' Pushups = Inr NEUTRAL"
proof -
  have 3: "toUpperCase (\<lambda>c. [c]) (trim (str ''I cannot tell''))
      \<notin> {str ''UP'', str ''DOWN'', str ''NEUTRAL''}"
    by (simp add: toUpperCase_def upperCodePoint_def trim_def isWhiteSpace_def str_simps)
  show ?thesis
    using analyzeFrame_service_total [of "\<lambda>c. [c]" "\<lambda>img ex. Rejected" "''/9j/4AAQ''" Pushups]
      analyzeFrame_service_total [of "\<lambda>c. [c]" "\<lambda>img ex. Response None" "''/9j/4AAQ''" Pushups]
      analyzeFrame_service_total [of "\<lambda>c. [c]"
        "\<lambda>img ex. Response (Some (str ''I cannot tell''))" "''/9j/4AAQ''" Pushups]
      3
    by blast
qed

text \<open>
  C10. The response text is trimmed and uppercased before it is matched: when the trimmed,
  uppercased text is UP, DOWN or NEUTRAL the adapter returns that label, and every other
  text gives NEUTRAL.
\<close>

theorem analyzeFrame_service_normalizes:
  "gen img ex = Response (Some t) \<Longrightarrow>
   (toUpperCase U (trim t) = str ''UP'' \<longrightarrow> analyzeFrame_service U gen img ex = Inr UP) \<and>
   (toUpperCase U (trim t) = str ''DOWN'' \<longrightarrow>
      analyzeFrame_service U gen img ex = Inr DOWN) \<and>
   (toUpperCase U (trim t) = str ''NEUTRAL'' \<longrightarrow>
      analyzeFrame_service U gen img ex = Inr NEUTRAL) \<and>
   (toUpperCase U (trim t) \<notin> {str ''UP'', str ''DOWN'', str ''NEUTRAL''} \<longrightarrow>
      analyzeFrame_service U gen img ex = Inr NEUTRAL)"
  by (simp add: analyzeFrame_service_def analyzeFrame_try_def str_simps)

theorem analyzeFrame_service_normalizes_witness:
  "analyzeFrame_service (\<lambda>c. [c]) (\<lambda>img ex. Response (Some (str '' up '')))
     ''/9j/4AAQ'' Squats = Inr UP \<and>
   analyzeFrame_service (\<lambda>c. [c]) (\<lambda>img ex. Response (Some (str ''down'')))
     ''/9j/4AAQ'' Squats = Inr DOWN \<and>
   analyzeFrame_service (\<lambda>c. [c]) (\<lambda>img ex. Response (Some (str ''Yes, up!'')))
     ''/9j/4AAQ'' Squats = Inr NEUTRAL"
proof -
  have 1: "toUpperCase (\<lambda>c. [c]) (trim (str '' up '')) = str ''UP''"
    by (simp add: toUpperCase_def upperCodePoint_def trim_def isWhiteSpace_def str_simps)
  have 2: "toUpperCase (\<lambda>c. [c]) (trim (str ''down'')) = str ''DOWN''"
    by (simp add: toUpperCase_def upperCodePoint_def trim_def isWhiteSpace_def str_simps)
  have 3: "toUpperCase (\<lambda>c. [c]) (trim (str ''Yes, up!''))
      \<notin> {str ''UP'', str ''DOWN'', str ''NEUTRAL''}"
    by (simp add: toUpperCase_def upperCodePoint_def trim_def isWhiteSpace_def str_simps)
  show ?thesis
    using analyzeFrame_service_normalizes [of "\<lambda>img ex. Response (Some (str '' up ''))"
        "''/9j/4AAQ''" Squats "str '' up ''" "\<lambda>c. [c]"]
      analyzeFrame_service_normalizes [of "\<lambda>img ex. Response (Some (str ''down''))"
        "''/9j/4AAQ''" Squats "str ''down''" "\<lambda>c. [c]"]
      analyzeFrame_service_normalizes [of "\<lambda>img ex. Response (Some (str ''Yes, up!''))"
        "''/9j/4AAQ''" Squats "str ''Yes, up!''" "\<lambda>c. [c]"]
      1 2 3
    by blast
qed

end
